theory Spec2Isabelle
  imports Complex_Main "HOL-Library.Sublist"
begin

section \<open>JavaScript numbers\<close>

text \<open>
  The component computes with JavaScript numbers.  A number is modelled as one of the
  three special values \<open>NaN\<close>, \<open>-Infinity\<close>, \<open>+Infinity\<close> or a finite
  value.  Finite values are idealised as real numbers: rounding to 53 bits, overflow to
  an infinity and the sign of zero are not modelled.  Every operator below follows the
  ECMAScript rules for the special values.
\<close>

datatype jsnum = NaN | NInf | Fin real | PInf

fun isNaN :: "jsnum \<Rightarrow> bool" where
  "isNaN NaN = True"
| "isNaN _ = False"

text \<open>The relational operators \<open><\<close> and \<open><=\<close>; \<open>a > b\<close> is \<open>js_lt b a\<close> and
  \<open>a >= b\<close> is \<open>js_le b a\<close>.  Every comparison with \<open>NaN\<close> is false.\<close>

fun js_lt :: "jsnum \<Rightarrow> jsnum \<Rightarrow> bool" where
  "js_lt NaN _ = False"
| "js_lt _ NaN = False"
| "js_lt (Fin x) (Fin y) = (x < y)"
| "js_lt NInf NInf = False"
| "js_lt NInf _ = True"
| "js_lt PInf _ = False"
| "js_lt (Fin _) PInf = True"
| "js_lt (Fin _) NInf = False"

fun js_le :: "jsnum \<Rightarrow> jsnum \<Rightarrow> bool" where
  "js_le NaN _ = False"
| "js_le _ NaN = False"
| "js_le (Fin x) (Fin y) = (x \<le> y)"
| "js_le NInf _ = True"
| "js_le PInf PInf = True"
| "js_le PInf _ = False"
| "js_le (Fin _) PInf = True"
| "js_le (Fin _) NInf = False"

definition js_gt :: "jsnum \<Rightarrow> jsnum \<Rightarrow> bool" where
  "js_gt a b = js_lt b a"

definition js_ge :: "jsnum \<Rightarrow> jsnum \<Rightarrow> bool" where
  "js_ge a b = js_le b a"

fun js_neg :: "jsnum \<Rightarrow> jsnum" where
  "js_neg NaN = NaN"
| "js_neg NInf = PInf"
| "js_neg PInf = NInf"
| "js_neg (Fin x) = Fin (- x)"

fun js_add :: "jsnum \<Rightarrow> jsnum \<Rightarrow> jsnum" where
  "js_add NaN _ = NaN"
| "js_add _ NaN = NaN"
| "js_add (Fin x) (Fin y) = Fin (x + y)"
| "js_add PInf NInf = NaN"
| "js_add NInf PInf = NaN"
| "js_add PInf _ = PInf"
| "js_add NInf _ = NInf"
| "js_add (Fin _) PInf = PInf"
| "js_add (Fin _) NInf = NInf"

definition js_sub :: "jsnum \<Rightarrow> jsnum \<Rightarrow> jsnum" where
  "js_sub a b = js_add a (js_neg b)"

text \<open>An infinity times a finite value: the sign of the product, and \<open>NaN\<close> at zero.\<close>

definition inf_times :: "bool \<Rightarrow> real \<Rightarrow> jsnum" where
  "inf_times positive y =
     (if y = 0 then NaN else if (0 < y) = positive then PInf else NInf)"

fun js_mul :: "jsnum \<Rightarrow> jsnum \<Rightarrow> jsnum" where
  "js_mul NaN _ = NaN"
| "js_mul _ NaN = NaN"
| "js_mul (Fin x) (Fin y) = Fin (x * y)"
| "js_mul PInf PInf = PInf"
| "js_mul PInf NInf = NInf"
| "js_mul NInf PInf = NInf"
| "js_mul NInf NInf = PInf"
| "js_mul PInf (Fin y) = inf_times True y"
| "js_mul NInf (Fin y) = inf_times False y"
| "js_mul (Fin x) PInf = inf_times True x"
| "js_mul (Fin x) NInf = inf_times False x"

text \<open>Division.  A finite non-zero value over zero is an infinity of the dividend's sign
  (the zero divisor is taken as \<open>+0\<close>), zero over zero and infinity over infinity are
  \<open>NaN\<close>, a finite value over an infinity is zero.\<close>

fun js_div :: "jsnum \<Rightarrow> jsnum \<Rightarrow> jsnum" where
  "js_div NaN _ = NaN"
| "js_div _ NaN = NaN"
| "js_div (Fin x) (Fin y) =
     (if y = 0 then (if x = 0 then NaN else if 0 < x then PInf else NInf)
      else Fin (x / y))"
| "js_div (Fin _) PInf = Fin 0"
| "js_div (Fin _) NInf = Fin 0"
| "js_div PInf (Fin y) = (if 0 \<le> y then PInf else NInf)"
| "js_div NInf (Fin y) = (if 0 \<le> y then NInf else PInf)"
| "js_div PInf _ = NaN"
| "js_div NInf _ = NaN"

fun Math_log :: "jsnum \<Rightarrow> jsnum" where
  "Math_log NaN = NaN"
| "Math_log NInf = NaN"
| "Math_log PInf = PInf"
| "Math_log (Fin x) = (if x < 0 then NaN else if x = 0 then NInf else Fin (ln x))"

definition Math_min :: "jsnum \<Rightarrow> jsnum \<Rightarrow> jsnum" where
  "Math_min a b = (if isNaN a \<or> isNaN b then NaN else if js_le a b then a else b)"

definition Math_max :: "jsnum \<Rightarrow> jsnum \<Rightarrow> jsnum" where
  "Math_max a b = (if isNaN a \<or> isNaN b then NaN else if js_le a b then b else a)"

text \<open>\<open>Math.round\<close> rounds to the nearest integer, halves towards \<open>+Infinity\<close>.\<close>

fun Math_round :: "jsnum \<Rightarrow> jsnum" where
  "Math_round (Fin x) = Fin (of_int \<lfloor>x + 1 / 2\<rfloor>)"
| "Math_round v = v"

section \<open>parseFloat\<close>

text \<open>
  \<open>parseFloat\<close> skips leading white space and reads the longest prefix that is a
  \<open>StrDecimalLiteral\<close>: an optional sign, then \<open>Infinity\<close> or decimal digits with an
  optional fraction and an optional exponent.  Whatever follows the prefix is ignored.
  When no prefix is a literal the result is \<open>NaN\<close>.
\<close>

definition is_space :: "char \<Rightarrow> bool" where
  "is_space c = (c \<in> set [CHR '' '', CHR 0x09, CHR 0x0A, CHR 0x0B, CHR 0x0C, CHR 0x0D])"

definition is_digit :: "char \<Rightarrow> bool" where
  "is_digit c = (c \<in> set ''0123456789'')"

definition digits_val :: "string \<Rightarrow> nat" where
  "digits_val ds = foldl (\<lambda>n c. 10 * n + (of_char c - 48)) 0 ds"

definition pow10 :: "int \<Rightarrow> real" where
  "pow10 e = (if 0 \<le> e then 10 ^ nat e else 1 / 10 ^ nat (- e))"

text \<open>The exponent part read from the text after the mantissa: \<open>e\<close> or \<open>E\<close>, an optional
  sign and at least one digit; anything else is no exponent.\<close>

definition signed_integer :: "string \<Rightarrow> int option" where
  "signed_integer s =
     (case s of
        [] \<Rightarrow> None
      | c # r \<Rightarrow>
          if c = CHR ''+'' then
            (if takeWhile is_digit r = [] then None
             else Some (int (digits_val (takeWhile is_digit r))))
          else if c = CHR ''-'' then
            (if takeWhile is_digit r = [] then None
             else Some (- int (digits_val (takeWhile is_digit r))))
          else
            (if takeWhile is_digit s = [] then None
             else Some (int (digits_val (takeWhile is_digit s)))))"

definition exponent_part :: "string \<Rightarrow> int" where
  "exponent_part s =
     (case s of
        [] \<Rightarrow> 0
      | c # r \<Rightarrow>
          if c = CHR ''e'' \<or> c = CHR ''E'' then
            (case signed_integer r of None \<Rightarrow> 0 | Some e \<Rightarrow> e)
          else 0)"

text \<open>The value of the digit string \<open>ds\<close> with \<open>k\<close> of its digits after the point and
  exponent \<open>e\<close>.\<close>

definition decimal_value :: "string \<Rightarrow> nat \<Rightarrow> int \<Rightarrow> jsnum" where
  "decimal_value ds k e = Fin (real (digits_val ds) * pow10 (e - int k))"

definition fraction_of :: "string \<Rightarrow> string" where
  "fraction_of r = takeWhile is_digit r"

definition strUnsignedDecimalLiteral :: "string \<Rightarrow> jsnum" where
  "strUnsignedDecimalLiteral s =
     (if take 8 s = ''Infinity'' then PInf
      else
        let ip = takeWhile is_digit s; r1 = dropWhile is_digit s in
        if ip \<noteq> [] then
          (case r1 of
             [] \<Rightarrow> decimal_value ip 0 0
           | c # r2 \<Rightarrow>
               if c = CHR ''.'' then
                 decimal_value (ip @ fraction_of r2) (length (fraction_of r2))
                   (exponent_part (dropWhile is_digit r2))
               else decimal_value ip 0 (exponent_part r1))
        else
          (case r1 of
             [] \<Rightarrow> NaN
           | c # r2 \<Rightarrow>
               if c = CHR ''.'' \<and> fraction_of r2 \<noteq> [] then
                 decimal_value (fraction_of r2) (length (fraction_of r2))
                   (exponent_part (dropWhile is_digit r2))
               else NaN))"

definition strDecimalLiteral :: "string \<Rightarrow> jsnum" where
  "strDecimalLiteral s =
     (case s of
        [] \<Rightarrow> NaN
      | c # r \<Rightarrow>
          if c = CHR ''+'' then strUnsignedDecimalLiteral r
          else if c = CHR ''-'' then js_neg (strUnsignedDecimalLiteral r)
          else strUnsignedDecimalLiteral s)"

definition parseFloat :: "string \<Rightarrow> jsnum" where
  "parseFloat s = strDecimalLiteral (dropWhile is_space s)"

text \<open>A field that is \<open>null\<close> in the response is first converted to the string
  \<open>null\<close>, which has no numeric prefix.\<close>

definition parseFloat_nullable :: "string option \<Rightarrow> jsnum" where
  "parseFloat_nullable v = (case v of None \<Rightarrow> NaN | Some s \<Rightarrow> parseFloat s)"

section \<open>Snapshots and the potential score\<close>

text \<open>
  The record \<open>CryptoData\<close> of the ranking component.  All numeric fields arrive as
  text.  The fields \<open>id\<close> and \<open>supply\<close> are named \<open>id_asset\<close> and
  \<open>supply_amount\<close> here.  \<open>maxSupply\<close> is \<open>null\<close> in
  the response for an uncapped asset, hence the option; the two optional fields are
  options as well.
\<close>

record CryptoData =
  id_asset :: string
  name :: string
  symbol :: string
  priceUsd :: string
  changePercent24Hr :: string
  marketCapUsd :: string
  volumeUsd24Hr :: string
  supply_amount :: string
  maxSupply :: "string option"
  volumeUsd24HrChange :: "string option"
  potentialScore :: "jsnum option"

text \<open>\<open>maxResults\<close> is a count (the component fixes it to 100) and is a natural number
  here; the three thresholds are JavaScript numbers.\<close>

record FilterParams =
  minVolume :: jsnum
  minMarketCap :: jsnum
  maxMarketCap :: jsnum
  maxResults :: nat

definition filterParams :: FilterParams where
  "filterParams =
     \<lparr>minVolume = Fin 1000000, minMarketCap = Fin 1000000,
      maxMarketCap = Fin 5000000000, maxResults = 100\<rparr>"

text \<open>
  \<open>calculatePotentialScore\<close> adds four sub-scores and rounds the sum.  Each sub-score is
  a definition of its own, in the order of the source.  The body sits in a
  \<open>try\<close> block whose handler returns 0, but \<open>parseFloat\<close>, the arithmetic and the
  \<open>Math\<close> functions never throw on a record with text fields, so the function is total
  and the handler is not a branch of the model.
\<close>

definition marketCapScore :: "CryptoData \<Rightarrow> jsnum" where
  "marketCapScore coin =
     (let marketCap = parseFloat (marketCapUsd coin) in
      if js_ge marketCap (Fin 1000000) \<and> js_le marketCap (Fin 5000000000) then
        js_mul (Fin 30)
          (js_sub (Fin 1)
             (js_div (js_sub (Math_log marketCap) (Math_log (Fin 1000000)))
                (js_sub (Math_log (Fin 5000000000)) (Math_log (Fin 1000000)))))
      else Fin 0)"

definition volumeScore :: "CryptoData \<Rightarrow> jsnum" where
  "volumeScore coin =
     (let marketCap = parseFloat (marketCapUsd coin);
          volume = parseFloat (volumeUsd24Hr coin) in
      if js_gt volume (Fin 0) then
        (let volumeRatio = js_div volume marketCap in
         Math_min (Fin 25) (js_mul volumeRatio (Fin 100)))
      else Fin 0)"

definition supplyScore :: "CryptoData \<Rightarrow> jsnum" where
  "supplyScore coin =
     (let supply_n = parseFloat (supply_amount coin);
          maxSupply_n = parseFloat_nullable (maxSupply coin) in
      if \<not> isNaN supply_n \<and> \<not> isNaN maxSupply_n \<and> js_gt maxSupply_n (Fin 0) then
        (let supplyRatio = js_div supply_n maxSupply_n in
         js_mul (Fin 20) (js_sub (Fin 1) supplyRatio))
      else Fin 0)"

definition trendScore :: "CryptoData \<Rightarrow> jsnum" where
  "trendScore coin =
     (let changePercent = parseFloat (changePercent24Hr coin) in
      if \<not> isNaN changePercent then Math_min (Fin 25) (Math_max (Fin 0) changePercent)
      else Fin 0)"

definition calculatePotentialScore :: "CryptoData \<Rightarrow> jsnum" where
  "calculatePotentialScore coin =
     Math_round
       (js_add (js_add (js_add (marketCapScore coin) (volumeScore coin)) (supplyScore coin))
          (trendScore coin))"

section \<open>Filtering, scoring, sorting, truncating\<close>

text \<open>The condition \<open>isValid\<close> of the filter callback (\<open>coin &&\<close> is true of every
  record).\<close>

definition isValid :: "FilterParams \<Rightarrow> CryptoData \<Rightarrow> bool" where
  "isValid fp coin =
     (let volumeUsd = parseFloat (volumeUsd24Hr coin);
          marketCap = parseFloat (marketCapUsd coin);
          changePercent = parseFloat (changePercent24Hr coin) in
      \<not> isNaN volumeUsd \<and> js_ge volumeUsd (minVolume fp) \<and>
      \<not> isNaN marketCap \<and> js_ge marketCap (minMarketCap fp) \<and>
      js_le marketCap (maxMarketCap fp) \<and> \<not> isNaN changePercent)"

text \<open>
  An element of the response array is a record or \<open>null\<close>.  On \<open>null\<close> the first
  property access of the callback throws; the callback's own handler catches that and
  returns \<open>false\<close>.
\<close>

definition filter_callback :: "FilterParams \<Rightarrow> CryptoData option \<Rightarrow> bool" where
  "filter_callback fp item = (case item of None \<Rightarrow> False | Some coin \<Rightarrow> isValid fp coin)"

text \<open>The records that \<open>.filter\<close> keeps, in the order of the array.\<close>

definition survivors :: "FilterParams \<Rightarrow> CryptoData option list \<Rightarrow> CryptoData list" where
  "survivors fp items = [coin. Some coin \<leftarrow> filter (filter_callback fp) items]"

definition withScore :: "CryptoData \<Rightarrow> CryptoData" where
  "withScore coin = coin\<lparr>potentialScore := Some (calculatePotentialScore coin)\<rparr>"

text \<open>\<open>x || 0\<close> on an optional number: \<open>undefined\<close>, \<open>NaN\<close> and zero are falsy.\<close>

definition or_zero :: "jsnum option \<Rightarrow> jsnum" where
  "or_zero v = (case v of None \<Rightarrow> Fin 0 | Some x \<Rightarrow> if isNaN x \<or> x = Fin 0 then Fin 0 else x)"

text \<open>The comparator handed to \<open>.sort\<close>; its handler is unreachable, a subtraction
  does not throw.\<close>

definition compareScore :: "CryptoData \<Rightarrow> CryptoData \<Rightarrow> jsnum" where
  "compareScore a b = js_sub (or_zero (potentialScore b)) (or_zero (potentialScore a))"

text \<open>
  \<open>Array.prototype.sort\<close> is stable, and an element goes after another exactly when the
  comparator's result is greater than 0 (\<open>NaN\<close> counts as 0).  The model is the stable
  insertion sort with that test.
\<close>

fun sort_insert :: "('a \<Rightarrow> 'a \<Rightarrow> jsnum) \<Rightarrow> 'a \<Rightarrow> 'a list \<Rightarrow> 'a list" where
  "sort_insert cmp x [] = [x]"
| "sort_insert cmp x (y # ys) =
     (if js_gt (cmp x y) (Fin 0) then y # sort_insert cmp x ys else x # y # ys)"

definition Array_sort :: "('a \<Rightarrow> 'a \<Rightarrow> jsnum) \<Rightarrow> 'a list \<Rightarrow> 'a list" where
  "Array_sort cmp xs = foldr (sort_insert cmp) xs []"

text \<open>\<open>xs.slice(0, n)\<close> for a count \<open>n\<close>.\<close>

definition Array_slice0 :: "'a list \<Rightarrow> nat \<Rightarrow> 'a list" where
  "Array_slice0 xs n = take n xs"

definition rankedList :: "FilterParams \<Rightarrow> CryptoData option list \<Rightarrow> CryptoData list" where
  "rankedList fp items =
     Array_slice0 (Array_sort compareScore (map withScore (survivors fp items))) (maxResults fp)"

section \<open>Component state\<close>

text \<open>The two messages the component stores in \<open>error\<close>: "no data matching the
  conditions was found" and "fetching the data failed, try again later".\<close>

datatype message = NoMatchingData | FetchFailed

datatype range = R24H | R7D | R30D | RALL

record range_spec =
  interval :: string
  days :: int

fun TIME_RANGES :: "range \<Rightarrow> range_spec" where
  "TIME_RANGES R24H = \<lparr>interval = ''m5'', days = 1\<rparr>"
| "TIME_RANGES R7D = \<lparr>interval = ''h1'', days = 7\<rparr>"
| "TIME_RANGES R30D = \<lparr>interval = ''h2'', days = 30\<rparr>"
| "TIME_RANGES RALL = \<lparr>interval = ''d1'', days = 2000\<rparr>"

record HistoricalData =
  hist_priceUsd :: string
  hist_time :: int
  hist_date :: string

text \<open>A history request that has been sent and not yet answered.\<close>

record history_request =
  req_cryptoId :: string
  req_range :: range
  req_interval :: string
  req_start :: int
  req_end :: int

text \<open>
  The state of \<open>PotentialList\<close>: the variables of its \<open>useState\<close> calls, and, below
  them, what the runtime holds for the component: whether the interval timer is set, how
  many calls of \<open>fetchData\<close> are suspended at their \<open>await\<close>, and the suspended calls
  of \<open>fetchHistoricalData\<close>.
\<close>

record state =
  error :: "message option"
  showSettings :: bool
  selectedTimeRange :: range
  selectedCrypto :: "CryptoData option"
  historicalData :: "HistoricalData list"
  loadingHistory :: bool
  data :: "CryptoData list"
  loading :: bool
  timer :: bool
  snapshotsInFlight :: nat
  historyInFlight :: "history_request list"

definition initial :: state where
  "initial =
     \<lparr>error = None, showSettings = False, selectedTimeRange = R7D, selectedCrypto = None,
      historicalData = [], loadingHistory = False, data = [], loading = True,
      timer = False, snapshotsInFlight = 0, historyInFlight = []\<rparr>"

text \<open>What an \<open>await axios.get(...)\<close> resumes with: a rejection, or the value of
  \<open>response.data.data\<close>.\<close>

datatype 'a response = NetworkError | Response 'a

text \<open>The value of \<open>response.data.data\<close> of the asset list: an array, or anything
  else (\<open>undefined\<close>, an object), on which \<open>data.filter\<close> throws a \<open>TypeError\<close>.\<close>

datatype payload = NotAnArray | Assets "CryptoData option list"

datatype exn = TypeError

text \<open>The \<open>try\<close> block of \<open>filterData\<close>: the list it returns and the state after its
  \<open>setError\<close>, or the exception that leaves the block.\<close>

definition filterData_try :: "FilterParams \<Rightarrow> payload \<Rightarrow> state \<Rightarrow> exn + (CryptoData list \<times> state)" where
  "filterData_try fp p st =
     (case p of
        NotAnArray \<Rightarrow> Inl TypeError
      | Assets items \<Rightarrow>
          (let filteredData = rankedList fp items in
           if length filteredData = 0 then Inr (filteredData, st\<lparr>error := Some NoMatchingData\<rparr>)
           else Inr (filteredData, st\<lparr>error := None\<rparr>)))"

definition filterData :: "FilterParams \<Rightarrow> payload \<Rightarrow> state \<Rightarrow> CryptoData list \<times> state" where
  "filterData fp p st =
     (case filterData_try fp p st of Inl err \<Rightarrow> ([], st) | Inr r \<Rightarrow> r)"

text \<open>\<open>fetchData\<close> up to its \<open>await\<close>, and from there on.\<close>

definition fetchData_start :: "state \<Rightarrow> state" where
  "fetchData_start st = st\<lparr>loading := True, snapshotsInFlight := Suc (snapshotsInFlight st)\<rparr>"

definition fetchData_resume :: "FilterParams \<Rightarrow> payload response \<Rightarrow> state \<Rightarrow> state" where
  "fetchData_resume fp r st =
     (let st1 =
        (case r of
           NetworkError \<Rightarrow> st\<lparr>error := Some FetchFailed\<rparr>
         | Response p \<Rightarrow>
             (case filterData fp p st of
                (filteredData, st') \<Rightarrow> st'\<lparr>data := filteredData, error := None\<rparr>))
      in st1\<lparr>loading := False, snapshotsInFlight := snapshotsInFlight st1 - 1\<rparr>)"

text \<open>\<open>fetchHistoricalData\<close> up to its \<open>await\<close>; \<open>now\<close> is the value of
  \<open>Date.now()\<close>.\<close>

definition fetchHistoricalData_start :: "int \<Rightarrow> string \<Rightarrow> range \<Rightarrow> state \<Rightarrow> state" where
  "fetchHistoricalData_start now cryptoId rng st =
     st\<lparr>loadingHistory := True,
        historyInFlight := historyInFlight st @
          [\<lparr>req_cryptoId = cryptoId, req_range = rng,
            req_interval = interval (TIME_RANGES rng),
            req_start = now - days (TIME_RANGES rng) * 24 * 60 * 60 * 1000,
            req_end = now\<rparr>]\<rparr>"

text \<open>The suspended call number \<open>i\<close> resumes: a response is stored, a rejection is only
  logged; either way the loading flag is cleared.\<close>

definition fetchHistoricalData_resume :: "nat \<Rightarrow> HistoricalData list response \<Rightarrow> state \<Rightarrow> state" where
  "fetchHistoricalData_resume i r st =
     (let st1 = (case r of NetworkError \<Rightarrow> st | Response d \<Rightarrow> st\<lparr>historicalData := d\<rparr>)
      in st1\<lparr>loadingHistory := False,
             historyInFlight := take i (historyInFlight st1) @ drop (Suc i) (historyInFlight st1)\<rparr>)"

definition handleTimeRangeChange :: "int \<Rightarrow> range option \<Rightarrow> state \<Rightarrow> state" where
  "handleTimeRangeChange now newRange st =
     (case newRange of
        None \<Rightarrow> st
      | Some r \<Rightarrow>
          (let st1 = st\<lparr>selectedTimeRange := r\<rparr> in
           case selectedCrypto st of
             None \<Rightarrow> st1
           | Some crypto \<Rightarrow> fetchHistoricalData_start now (id_asset crypto) r st1))"

definition handleCryptoClick :: "int \<Rightarrow> CryptoData \<Rightarrow> state \<Rightarrow> state" where
  "handleCryptoClick now crypto st =
     fetchHistoricalData_start now (id_asset crypto) (selectedTimeRange st)
       (st\<lparr>selectedCrypto := Some crypto\<rparr>)"

text \<open>
  The events of the component.  The effect on mount calls \<open>fetchData\<close> and sets the
  60-second timer, whose tick calls \<open>fetchData\<close>.  The refresh button is disabled while
  \<open>loading\<close>.  The grid of assets is rendered only when not \<open>loading\<close>, and the range
  toggle only inside the dialog of a selected asset.  A settle event for a call that is
  not suspended does not happen and leaves the state as it is.
\<close>

datatype event =
    Mount
  | TimerTick
  | RefreshClick
  | SnapshotSettled "payload response"
  | CryptoClick int CryptoData
  | DialogClose
  | RangeToggle int "range option"
  | HistorySettled nat "HistoricalData list response"

fun step :: "FilterParams \<Rightarrow> state \<Rightarrow> event \<Rightarrow> state" where
  "step fp st Mount = fetchData_start (st\<lparr>timer := True\<rparr>)"
| "step fp st TimerTick = (if timer st then fetchData_start st else st)"
| "step fp st RefreshClick = (if loading st then st else fetchData_start st)"
| "step fp st (SnapshotSettled r) =
     (if 0 < snapshotsInFlight st then fetchData_resume fp r st else st)"
| "step fp st (CryptoClick now crypto) =
     (if \<not> loading st \<and> crypto \<in> set (data st) then handleCryptoClick now crypto st else st)"
| "step fp st DialogClose = st\<lparr>selectedCrypto := None\<rparr>"
| "step fp st (RangeToggle now newRange) =
     (if selectedCrypto st \<noteq> None then handleTimeRangeChange now newRange st else st)"
| "step fp st (HistorySettled i r) =
     (if i < length (historyInFlight st) then fetchHistoricalData_resume i r st else st)"

definition run :: "FilterParams \<Rightarrow> state \<Rightarrow> event list \<Rightarrow> state" where
  "run fp st evs = foldl (step fp) st evs"

section \<open>Chart series\<close>

text \<open>
  A label is the text that \<open>new Date(time).toLocaleDateString(locale, options)\<close>
  returns.  The formatter belongs to the runtime, so a label is kept as the arguments of
  that call.  An option that is \<open>undefined\<close> is \<open>None\<close>.
\<close>

record format_options =
  month :: "string option"
  day :: "string option"
  hour :: "string option"

datatype label = LocaleDateString int string format_options

text \<open>The chart object, without its constant styling fields.\<close>

record chart =
  labels :: "label list"
  dataset :: "jsnum list"

definition chartData :: "HistoricalData list \<Rightarrow> range \<Rightarrow> chart option" where
  "chartData hs rng =
     (if length hs = 0 then None
      else Some
        \<lparr>labels = map (\<lambda>item. LocaleDateString (hist_time item) ''zh-CN''
             \<lparr>month = Some ''short'', day = Some ''numeric'',
              hour = (if rng = R24H then Some ''numeric'' else None)\<rparr>) hs,
         dataset = map (\<lambda>item. parseFloat (hist_priceUsd item)) hs\<rparr>)"

section \<open>The try block of filterData with steps that may throw\<close>

text \<open>
  In the source the three steps that follow the filter cannot throw:
  \<open>calculatePotentialScore\<close> and the comparator catch whatever is thrown in them, and
  \<open>slice\<close> is total.  To say what the handler of \<open>filterData\<close> does when one of these
  steps does throw, the same \<open>try\<close> block is written once more with the three steps
  as parameters that return a value or an exception: the score of a record, the
  comparator, and the slice.  \<open>source_steps\<close> are the steps of the source.
\<close>

record steps =
  scoreStep :: "CryptoData \<Rightarrow> exn + jsnum"
  compareStep :: "CryptoData \<Rightarrow> CryptoData \<Rightarrow> exn + jsnum"
  sliceStep :: "CryptoData list \<Rightarrow> nat \<Rightarrow> exn + CryptoData list"

definition source_steps :: steps where
  "source_steps =
     \<lparr>scoreStep = (\<lambda>coin. Inr (calculatePotentialScore coin)),
      compareStep = (\<lambda>a b. Inr (compareScore a b)),
      sliceStep = (\<lambda>xs n. Inr (Array_slice0 xs n))\<rparr>"

text \<open>\<open>.map\<close> with a callback that may throw: the elements are visited in order and the
  first exception ends the call.\<close>

fun map_exn :: "('a \<Rightarrow> exn + 'b) \<Rightarrow> 'a list \<Rightarrow> exn + 'b list" where
  "map_exn f [] = Inr []"
| "map_exn f (x # xs) =
     (case f x of
        Inl e \<Rightarrow> Inl e
      | Inr y \<Rightarrow> (case map_exn f xs of Inl e \<Rightarrow> Inl e | Inr ys \<Rightarrow> Inr (y # ys)))"

text \<open>The callback of \<open>.map\<close>: the record with the score that the score step returns.\<close>

definition withScore_by :: "(CryptoData \<Rightarrow> exn + jsnum) \<Rightarrow> CryptoData \<Rightarrow> exn + CryptoData" where
  "withScore_by score coin =
     (case score coin of Inl e \<Rightarrow> Inl e | Inr v \<Rightarrow> Inr (coin\<lparr>potentialScore := Some v\<rparr>))"

text \<open>The sort with a comparator that may throw: an exception of the comparator ends the
  sort.  The pairs that are compared are those of the insertion sort above.\<close>

fun sort_insert_exn :: "('a \<Rightarrow> 'a \<Rightarrow> exn + jsnum) \<Rightarrow> 'a \<Rightarrow> 'a list \<Rightarrow> exn + 'a list" where
  "sort_insert_exn cmp x [] = Inr [x]"
| "sort_insert_exn cmp x (y # ys) =
     (case cmp x y of
        Inl e \<Rightarrow> Inl e
      | Inr v \<Rightarrow>
          if js_gt v (Fin 0) then
            (case sort_insert_exn cmp x ys of Inl e \<Rightarrow> Inl e | Inr zs \<Rightarrow> Inr (y # zs))
          else Inr (x # y # ys))"

fun Array_sort_exn :: "('a \<Rightarrow> 'a \<Rightarrow> exn + jsnum) \<Rightarrow> 'a list \<Rightarrow> exn + 'a list" where
  "Array_sort_exn cmp [] = Inr []"
| "Array_sort_exn cmp (x # xs) =
     (case Array_sort_exn cmp xs of Inl e \<Rightarrow> Inl e | Inr ys \<Rightarrow> sort_insert_exn cmp x ys)"

text \<open>The scoring step, and the chain \<open>.map(...).sort(...).slice(...)\<close> on the records
  that the filter kept.\<close>

definition scoring :: "steps \<Rightarrow> CryptoData list \<Rightarrow> exn + CryptoData list" where
  "scoring S kept = map_exn (withScore_by (scoreStep S)) kept"

definition after_filter :: "steps \<Rightarrow> FilterParams \<Rightarrow> CryptoData list \<Rightarrow> exn + CryptoData list" where
  "after_filter S fp kept =
     (case scoring S kept of
        Inl e \<Rightarrow> Inl e
      | Inr scored \<Rightarrow>
          (case Array_sort_exn (compareStep S) scored of
             Inl e \<Rightarrow> Inl e
           | Inr ordered \<Rightarrow> sliceStep S ordered (maxResults fp)))"

definition filterData_try_with ::
  "steps \<Rightarrow> FilterParams \<Rightarrow> payload \<Rightarrow> state \<Rightarrow> exn + (CryptoData list \<times> state)" where
  "filterData_try_with S fp p st =
     (case p of
        NotAnArray \<Rightarrow> Inl TypeError
      | Assets items \<Rightarrow>
          (case after_filter S fp (survivors fp items) of
             Inl e \<Rightarrow> Inl e
           | Inr filteredData \<Rightarrow>
               if length filteredData = 0 then
                 Inr (filteredData, st\<lparr>error := Some NoMatchingData\<rparr>)
               else Inr (filteredData, st\<lparr>error := None\<rparr>)))"

definition filterData_with ::
  "steps \<Rightarrow> FilterParams \<Rightarrow> payload \<Rightarrow> state \<Rightarrow> CryptoData list \<times> state" where
  "filterData_with S fp p st =
     (case filterData_try_with S fp p st of Inl err \<Rightarrow> ([], st) | Inr r \<Rightarrow> r)"

definition fetchData_resume_with ::
  "steps \<Rightarrow> FilterParams \<Rightarrow> payload response \<Rightarrow> state \<Rightarrow> state" where
  "fetchData_resume_with S fp r st =
     (let st1 =
        (case r of
           NetworkError \<Rightarrow> st\<lparr>error := Some FetchFailed\<rparr>
         | Response p \<Rightarrow>
             (case filterData_with S fp p st of
                (filteredData, st') \<Rightarrow> st'\<lparr>data := filteredData, error := None\<rparr>))
      in st1\<lparr>loading := False, snapshotsInFlight := snapshotsInFlight st1 - 1\<rparr>)"

section \<open>Concrete inputs\<close>

text \<open>A record with the given identifier, market capitalisation, volume, percent
  change, supply and maximum supply.\<close>

definition asset :: "string \<Rightarrow> string \<Rightarrow> string \<Rightarrow> string \<Rightarrow> string \<Rightarrow> string option \<Rightarrow> CryptoData" where
  "asset i mc v cp s ms =
     \<lparr>id_asset = i, name = i, symbol = i, priceUsd = ''1'', changePercent24Hr = cp,
      marketCapUsd = mc, volumeUsd24Hr = v, supply_amount = s, maxSupply = ms,
      volumeUsd24HrChange = None, potentialScore = None\<rparr>"

text \<open>The snapshot of the specification's first scenario.\<close>

definition scenario1 :: CryptoData where
  "scenario1 =
     asset ''scenario-1'' ''2000000000'' ''1000000000'' ''10'' ''500000'' (Some ''1000000'')"

text \<open>A snapshot that passes the filter and whose circulating supply is three times its
  maximum supply.\<close>

definition oversupplied :: CryptoData where
  "oversupplied = asset ''over'' ''5000000000'' ''1000000'' ''-5'' ''3000000'' (Some ''1000000'')"

text \<open>A snapshot whose supply is not a number.\<close>

definition unparsable_supply :: CryptoData where
  "unparsable_supply = asset ''u'' ''1000000'' ''1000000'' ''10'' ''abc'' (Some ''1000000'')"

text \<open>Snapshots whose percent change and whose volume are not numbers.\<close>

definition unparsable_change :: CryptoData where
  "unparsable_change = asset ''c'' ''1000000'' ''1000000'' ''abc'' ''500000'' (Some ''1000000'')"

definition unparsable_volume :: CryptoData where
  "unparsable_volume = asset ''v'' ''1000000'' ''abc'' ''10'' ''500000'' (Some ''1000000'')"

text \<open>A snapshot whose volume is the text \<open>Infinity\<close>.\<close>

definition infinite_volume :: CryptoData where
  "infinite_volume = asset ''inf'' ''2000000'' ''Infinity'' ''1'' ''0'' None"

text \<open>A snapshot at the floor of both thresholds, and one with a volume of 500.\<close>

definition asset_a :: CryptoData where
  "asset_a = asset ''a'' ''1000000'' ''1000000'' ''0'' ''0'' None"

definition low_volume :: CryptoData where
  "low_volume = asset ''low'' ''2000000'' ''500'' ''1'' ''0'' None"

text \<open>Two history responses, and the events of a user who opens the dialog of
  \<open>asset_a\<close> and switches the range to 24H before the first request is answered.\<close>

definition series_7d :: "HistoricalData list" where
  "series_7d = [\<lparr>hist_priceUsd = ''1.5'', hist_time = 1000, hist_date = ''d1''\<rparr>,
                \<lparr>hist_priceUsd = ''2'', hist_time = 2000, hist_date = ''d2''\<rparr>]"

definition series_24h :: "HistoricalData list" where
  "series_24h = [\<lparr>hist_priceUsd = ''3'', hist_time = 3000, hist_date = ''d3''\<rparr>]"

definition open_then_switch :: "event list" where
  "open_then_switch =
     [Mount, SnapshotSettled (Response (Assets [Some asset_a])),
      CryptoClick 1700000000000 (withScore asset_a), RangeToggle 1700000000500 (Some R24H)]"

text \<open>A state with a ranked list of one asset and no fetch in flight.\<close>

definition ready :: state where
  "ready = initial\<lparr>timer := True, loading := False, data := [withScore asset_a]\<rparr>"





section \<open>Facts about numbers and parsing\<close>

lemmas parse_defs = parseFloat_def strDecimalLiteral_def strUnsignedDecimalLiteral_def
  is_space_def is_digit_def digits_val_def decimal_value_def pow10_def fraction_of_def
  exponent_part_def signed_integer_def

lemma parseFloat_examples:
  "parseFloat ''2000000000'' = Fin 2000000000"
  "parseFloat ''1000000000'' = Fin 1000000000"
  "parseFloat ''5000000000'' = Fin 5000000000"
  "parseFloat ''10'' = Fin 10"
  "parseFloat ''0'' = Fin 0"
  "parseFloat ''-5'' = Fin (- 5)"
  "parseFloat ''500000'' = Fin 500000"
  "parseFloat ''1000000'' = Fin 1000000"
  "parseFloat ''3000000'' = Fin 3000000"
  "parseFloat ''2000000'' = Fin 2000000"
  "parseFloat ''500'' = Fin 500"
  "parseFloat ''1'' = Fin 1"
  "parseFloat ''abc'' = NaN"
  "parseFloat ''Infinity'' = PInf"
  "parseFloat ''-12.5e1'' = Fin (- 125)"
  "parseFloat '' 0.25xyz'' = Fin (1 / 4)"
  by (simp_all add: parse_defs)

lemma or_zero_not_NaN: "\<not> isNaN (or_zero v)"
  by (cases v) (auto simp: or_zero_def)

lemma js_le_refl: "\<not> isNaN a \<Longrightarrow> js_le a a"
  by (cases a) simp_all

lemma js_le_trans: "js_le a b \<Longrightarrow> js_le b c \<Longrightarrow> js_le a c"
  by (cases a; cases b; cases c) simp_all

lemma js_lt_imp_le: "js_lt a b \<Longrightarrow> js_le a b"
  by (cases a; cases b) simp_all

lemma js_not_lt_imp_le: "\<not> isNaN a \<Longrightarrow> \<not> isNaN b \<Longrightarrow> \<not> js_lt a b \<Longrightarrow> js_le b a"
  by (cases a; cases b) simp_all

lemma js_le_imp_not_lt: "js_le b a \<Longrightarrow> \<not> js_lt a b"
  by (cases a; cases b) simp_all

lemma js_lt_irrefl: "\<not> js_lt a a"
  by (cases a) simp_all

lemma js_sub_positive_iff:
  "\<not> isNaN a \<Longrightarrow> \<not> isNaN b \<Longrightarrow> js_gt (js_sub b a) (Fin 0) \<longleftrightarrow> js_lt a b"
  by (cases a; cases b) (simp_all add: js_gt_def js_sub_def)

lemma js_add_zero: "js_add a (Fin 0) = a"
  by (cases a) simp_all

section \<open>Facts about the sort\<close>

lemma compareScore_positive_iff:
  "js_gt (compareScore x y) (Fin 0) \<longleftrightarrow>
     js_lt (or_zero (potentialScore x)) (or_zero (potentialScore y))"
  by (simp add: compareScore_def js_sub_positive_iff or_zero_not_NaN)

lemma set_sort_insert: "set (sort_insert cmp x ys) = insert x (set ys)"
  by (induction ys) auto

lemma length_sort_insert: "length (sort_insert cmp x ys) = Suc (length ys)"
  by (induction ys) auto

lemma sorted_sort_insert:
  assumes "sorted_wrt (\<lambda>a b. js_ge (or_zero (potentialScore a)) (or_zero (potentialScore b))) ys"
  shows "sorted_wrt (\<lambda>a b. js_ge (or_zero (potentialScore a)) (or_zero (potentialScore b)))
           (sort_insert compareScore x ys)"
  using assms
proof (induction ys)
  case Nil
  then show ?case by simp
next
  case (Cons y ys)
  show ?case
  proof (cases "js_lt (or_zero (potentialScore x)) (or_zero (potentialScore y))")
    case True
    then have "js_ge (or_zero (potentialScore y)) (or_zero (potentialScore x))"
      by (simp add: js_ge_def js_lt_imp_le)
    with True Cons show ?thesis
      by (auto simp: compareScore_positive_iff set_sort_insert)
  next
    case False
    then have xy: "js_le (or_zero (potentialScore y)) (or_zero (potentialScore x))"
      by (simp add: js_not_lt_imp_le or_zero_not_NaN)
    have "js_le (or_zero (potentialScore z)) (or_zero (potentialScore x))" if "z \<in> set ys" for z
    proof -
      from Cons.prems that have "js_le (or_zero (potentialScore z)) (or_zero (potentialScore y))"
        by (auto simp: js_ge_def)
      then show ?thesis using xy by (rule js_le_trans)
    qed
    with False xy Cons.prems show ?thesis
      by (auto simp: compareScore_positive_iff js_ge_def)
  qed
qed

lemma Array_sort_Cons: "Array_sort cmp (x # xs) = sort_insert cmp x (Array_sort cmp xs)"
  by (simp add: Array_sort_def)

lemma Array_sort_Nil: "Array_sort cmp [] = []"
  by (simp add: Array_sort_def)

lemma sorted_Array_sort:
  "sorted_wrt (\<lambda>a b. js_ge (or_zero (potentialScore a)) (or_zero (potentialScore b)))
     (Array_sort compareScore xs)"
  by (induction xs) (simp_all add: Array_sort_Nil Array_sort_Cons sorted_sort_insert)

lemma set_Array_sort: "set (Array_sort cmp xs) = set xs"
  by (induction xs) (simp_all add: Array_sort_Nil Array_sort_Cons set_sort_insert)

lemma length_Array_sort: "length (Array_sort cmp xs) = length xs"
  by (induction xs) (simp_all add: Array_sort_Nil Array_sort_Cons length_sort_insert)

lemma filter_sort_insert:
  "filter (\<lambda>c. or_zero (potentialScore c) = v) (sort_insert compareScore x ys) =
   filter (\<lambda>c. or_zero (potentialScore c) = v) (x # ys)"
proof (induction ys)
  case Nil
  then show ?case by simp
next
  case (Cons y ys)
  show ?case
  proof (cases "js_lt (or_zero (potentialScore x)) (or_zero (potentialScore y))")
    case True
    then have "\<not> (or_zero (potentialScore x) = v \<and> or_zero (potentialScore y) = v)"
      using js_lt_irrefl by auto
    with True Cons show ?thesis
      by (auto simp: compareScore_positive_iff)
  next
    case False
    then show ?thesis by (simp add: compareScore_positive_iff)
  qed
qed

lemma filter_Array_sort:
  "filter (\<lambda>c. or_zero (potentialScore c) = v) (Array_sort compareScore xs) =
   filter (\<lambda>c. or_zero (potentialScore c) = v) xs"
  by (induction xs) (simp_all add: Array_sort_Nil Array_sort_Cons filter_sort_insert)

section \<open>Facts about the filter and the ranked list\<close>

lemma isValid_iff:
  "isValid fp coin \<longleftrightarrow>
     \<not> isNaN (parseFloat (volumeUsd24Hr coin)) \<and>
     \<not> isNaN (parseFloat (marketCapUsd coin)) \<and>
     \<not> isNaN (parseFloat (changePercent24Hr coin)) \<and>
     js_ge (parseFloat (volumeUsd24Hr coin)) (minVolume fp) \<and>
     js_ge (parseFloat (marketCapUsd coin)) (minMarketCap fp) \<and>
     js_le (parseFloat (marketCapUsd coin)) (maxMarketCap fp)"
  by (auto simp: isValid_def Let_def)

lemma survivors_iff:
  "coin \<in> set (survivors fp items) \<longleftrightarrow> Some coin \<in> set items \<and> isValid fp coin"
  by (auto simp: survivors_def filter_callback_def split: option.splits)

lemma score_withScore: "calculatePotentialScore (withScore c) = calculatePotentialScore c"
  by (simp add: calculatePotentialScore_def withScore_def marketCapScore_def volumeScore_def
      supplyScore_def trendScore_def)

lemma potentialScore_withScore:
  "potentialScore (withScore c) = Some (calculatePotentialScore (withScore c))"
  by (simp add: score_withScore) (simp add: withScore_def)

lemma volume_withScore: "volumeUsd24Hr (withScore c) = volumeUsd24Hr c"
  by (simp add: withScore_def)

lemma set_rankedList: "set (rankedList fp items) \<subseteq> withScore ` set (survivors fp items)"
  using set_take_subset [of "maxResults fp"
      "Array_sort compareScore (map withScore (survivors fp items))"]
  by (simp add: rankedList_def Array_slice0_def set_Array_sort)

lemma or_zero_Some: "\<not> isNaN s \<Longrightarrow> or_zero (Some s) = s"
  by (auto simp: or_zero_def)

lemma no_inversion:
  assumes "js_ge (or_zero (Some s)) (or_zero (Some t))"
  shows "\<not> js_lt s t"
proof (cases "isNaN s \<or> isNaN t")
  case True
  then show ?thesis by (cases s; cases t) auto
next
  case False
  with assms show ?thesis by (simp add: or_zero_Some js_ge_def js_le_imp_not_lt)
qed

lemma survivors_in_input_order:
  "map Some (survivors fp items) = filter (filter_callback fp) items"
proof (induction items)
  case Nil
  then show ?case by (simp add: survivors_def)
next
  case (Cons item items)
  then show ?case
    by (cases item) (simp_all add: survivors_def filter_callback_def)
qed

lemma survivors_single: "isValid fp c \<Longrightarrow> survivors fp [Some c] = [c]"
  by (simp add: survivors_def filter_callback_def)

lemma survivors_single_invalid: "\<not> isValid fp c \<Longrightarrow> survivors fp [Some c] = []"
  by (simp add: survivors_def filter_callback_def)

lemma rankedList_single:
  "isValid fp c \<Longrightarrow> 0 < maxResults fp \<Longrightarrow> rankedList fp [Some c] = [withScore c]"
  by (simp add: rankedList_def survivors_single Array_sort_Cons Array_sort_Nil
      Array_slice0_def take_Cons')

lemma rankedList_none: "survivors fp items = [] \<Longrightarrow> rankedList fp items = []"
  by (simp add: rankedList_def Array_sort_Nil Array_slice0_def)

section \<open>Evaluating the concrete inputs\<close>

lemma ln_2000: "ln 2000000000 - ln 1000000 = ln (2000::real)"
proof -
  have "ln (2000000000 / 1000000 :: real) = ln 2000000000 - ln 1000000"
    by (rule ln_divide_pos) simp_all
  then show ?thesis by simp
qed

lemma ln_5000: "ln 5000000000 - ln 1000000 = ln (5000::real)"
proof -
  have "ln (5000000000 / 1000000 :: real) = ln 5000000000 - ln 1000000"
    by (rule ln_divide_pos) simp_all
  then show ?thesis by simp
qed

lemma ln_5000_pos: "0 < ln (5000::real)"
  by simp

lemma ln_ratio_upper: "ln (2000::real) / ln 5000 < 67 / 75"
proof -
  have "(2000::real) ^ 75 < 5000 ^ 67" by simp
  then have "ln ((2000::real) ^ 75) < ln (5000 ^ 67)"
    by (subst ln_less_cancel_iff) simp_all
  then have "real 75 * ln (2000::real) < real 67 * ln 5000"
    by (simp only: ln_realpow)
  then have "75 * ln (2000::real) < 67 * ln 5000"
    by simp
  then show ?thesis
    using ln_5000_pos by (simp add: field_simps)
qed

lemma ln_ratio_lower: "89 / 100 < ln (2000::real) / ln 5000"
proof -
  have "(5000::real) ^ 89 < 2000 ^ 100" by simp
  then have "ln ((5000::real) ^ 89) < ln (2000 ^ 100)"
    by (subst ln_less_cancel_iff) simp_all
  then have "real 89 * ln (5000::real) < real 100 * ln 2000"
    by (simp only: ln_realpow)
  then have "89 * ln (5000::real) < 100 * ln 2000"
    by simp
  then show ?thesis
    using ln_5000_pos by (simp add: field_simps)
qed

lemmas score_defs = marketCapScore_def volumeScore_def supplyScore_def trendScore_def
  asset_def parseFloat_examples parseFloat_nullable_def js_ge_def js_gt_def js_sub_def
  Math_min_def Math_max_def ln_2000 ln_5000

lemma scenario1_marketCapScore:
  "marketCapScore scenario1 = Fin (30 * (1 - ln 2000 / ln 5000))"
  by (simp add: scenario1_def score_defs)

lemma scenario1_marketCapScore_bounds:
  "js_lt (Fin (16 / 5)) (marketCapScore scenario1)"
  "js_lt (marketCapScore scenario1) (Fin (33 / 10))"
  using ln_ratio_lower ln_ratio_upper by (simp_all add: scenario1_marketCapScore)

lemma scenario1_subscores:
  "volumeScore scenario1 = Fin 25"
  "supplyScore scenario1 = Fin 10"
  "trendScore scenario1 = Fin 10"
  by (simp_all add: scenario1_def score_defs)

lemma scenario1_total: "calculatePotentialScore scenario1 = Fin 48"
proof -
  have "\<lfloor>30 * (1 - ln 2000 / ln 5000) + 25 + 10 + 10 + 1 / 2 :: real\<rfloor> = 48"
    using ln_ratio_lower ln_ratio_upper by (intro floor_unique) simp_all
  then show ?thesis
    by (simp add: calculatePotentialScore_def scenario1_marketCapScore scenario1_subscores)
qed

lemma oversupplied_valid: "isValid filterParams oversupplied"
  by (simp add: isValid_iff filterParams_def oversupplied_def asset_def parseFloat_examples
      js_ge_def)

lemma oversupplied_subscores:
  "marketCapScore oversupplied = Fin 0"
  "volumeScore oversupplied = Fin (1 / 50)"
  "supplyScore oversupplied = Fin (- 40)"
  "trendScore oversupplied = Fin 0"
  by (simp_all add: oversupplied_def score_defs)

lemma oversupplied_total: "calculatePotentialScore oversupplied = Fin (- 40)"
proof -
  have "\<lfloor>(1 / 50 - 40 + 1 / 2 :: real)\<rfloor> = - 40"
    by (intro floor_unique) simp_all
  then show ?thesis
    by (simp add: calculatePotentialScore_def oversupplied_subscores)
qed

lemma asset_a_valid: "isValid filterParams asset_a"
  by (simp add: isValid_iff filterParams_def asset_a_def asset_def parseFloat_examples
      js_ge_def)

lemma asset_a_total: "calculatePotentialScore asset_a = Fin 55"
proof -
  have "\<lfloor>(30 + 25 + 1 / 2 :: real)\<rfloor> = 55"
    by (intro floor_unique) simp_all
  then show ?thesis
    by (simp add: calculatePotentialScore_def asset_a_def score_defs)
qed

lemma asset_a_ranked: "rankedList filterParams [Some asset_a] = [withScore asset_a]"
  using rankedList_single [OF asset_a_valid] by (simp add: filterParams_def)

lemma low_volume_dropped: "rankedList filterParams [Some low_volume] = []"
proof -
  have "\<not> isValid filterParams low_volume"
    by (simp add: isValid_iff filterParams_def low_volume_def asset_def parseFloat_examples
        js_ge_def)
  then show ?thesis
    by (simp add: rankedList_none survivors_single_invalid)
qed

lemma infinite_volume_valid: "isValid filterParams infinite_volume"
  by (simp add: isValid_iff filterParams_def infinite_volume_def asset_def parseFloat_examples
      js_ge_def)

lemma unparsable_supply_total: "calculatePotentialScore unparsable_supply = Fin 65"
proof -
  have "\<lfloor>(30 + 25 + 10 + 1 / 2 :: real)\<rfloor> = 65"
    by (intro floor_unique) simp_all
  then show ?thesis
    by (simp add: calculatePotentialScore_def unparsable_supply_def score_defs)
qed

lemmas run_defs = run_def fetchData_start_def fetchData_resume_def filterData_def
  filterData_try_def handleCryptoClick_def handleTimeRangeChange_def
  fetchHistoricalData_start_def fetchHistoricalData_resume_def initial_def

lemma ready_reachable:
  "run filterParams initial [Mount, SnapshotSettled (Response (Assets [Some asset_a]))] = ready"
  by (simp add: run_defs asset_a_ranked ready_def)

lemma id_withScore_asset_a: "id_asset (withScore asset_a) = ''a''"
  by (simp add: withScore_def asset_a_def asset_def)

section \<open>Facts about the steps that may throw\<close>

lemma map_exn_total: "map_exn (\<lambda>x. Inr (g x)) xs = Inr (map g xs)"
  by (induction xs) simp_all




lemma sort_insert_exn_total:
  "sort_insert_exn (\<lambda>a b. Inr (cmp a b)) x ys = Inr (sort_insert cmp x ys)"
  by (induction ys) simp_all

lemma Array_sort_exn_total:
  "Array_sort_exn (\<lambda>a b. Inr (cmp a b)) xs = Inr (Array_sort cmp xs)"
  by (induction xs) (simp_all add: Array_sort_Nil Array_sort_Cons sort_insert_exn_total)

lemma after_filter_source:
  "after_filter source_steps fp kept =
     Inr (Array_slice0 (Array_sort compareScore (map withScore kept)) (maxResults fp))"
proof -
  have "withScore_by (\<lambda>coin. Inr (calculatePotentialScore coin)) = (\<lambda>coin. Inr (withScore coin))"
    by (rule ext) (simp add: withScore_by_def withScore_def)
  then show ?thesis
    by (simp add: after_filter_def scoring_def source_steps_def map_exn_total
        Array_sort_exn_total)
qed

lemma filterData_try_with_source:
  "filterData_try_with source_steps fp p st = filterData_try fp p st"
  by (cases p)
    (simp_all add: filterData_try_with_def filterData_try_def after_filter_source
      rankedList_def)

lemma filterData_with_source: "filterData_with source_steps fp p st = filterData fp p st"
  by (simp add: filterData_with_def filterData_def filterData_try_with_source)

lemma fetchData_resume_with_source:
  "fetchData_resume_with source_steps fp r st = fetchData_resume fp r st"
  by (cases r)
    (simp_all add: fetchData_resume_with_def fetchData_resume_def filterData_with_source)

lemma source_throws_only_on_non_array:
  "(\<exists>e. filterData_try fp p st = Inl e) \<longleftrightarrow> p = NotAnArray"
  by (cases p) (simp_all add: filterData_try_def Let_def)




section \<open>The claims\<close>

text \<open>
  Claim C1 says that \<open>calculatePotentialScore\<close> returns an integer between 0 and 100
  for every snapshot.  The supply sub-score \<open>20 * (1 - supply / maxSupply)\<close> is not
  clamped, although the source comments it as a score of 0 to 20 points: for the snapshot
  \<open>oversupplied\<close>, which passes the filter, the score is -40, and the ranked list
  carries it.
\<close>

theorem C1_score_below_zero:
  "isValid filterParams oversupplied \<and>
   supplyScore oversupplied = Fin (- 40) \<and>
   calculatePotentialScore oversupplied = Fin (- 40) \<and>
   rankedList filterParams [Some oversupplied] =
     [oversupplied\<lparr>potentialScore := Some (Fin (- 40))\<rparr>]"
proof -
  have "rankedList filterParams [Some oversupplied] = [withScore oversupplied]"
    using rankedList_single [OF oversupplied_valid] by (simp add: filterParams_def)
  then show ?thesis
    by (simp add: oversupplied_valid oversupplied_subscores oversupplied_total withScore_def)
qed

text \<open>
  Claim C2 says that a superseded history fetch never overwrites the series of a later
  selection.  The source has no such check.  In the run below the dialog of \<open>asset_a\<close>
  is opened with range 7D and the range is switched to 24H while the first request is in
  flight; the 24H response arrives first, the 7D response second, and the series that
  stays is the 7D one while the selected range is 24H.
\<close>

theorem C2_stale_response_overwrites:
  "map req_cryptoId (historyInFlight (run filterParams initial open_then_switch)) = [''a'', ''a''] \<and>
   map req_range (historyInFlight (run filterParams initial open_then_switch)) = [R7D, R24H] \<and>
   selectedTimeRange
     (run filterParams initial
        (open_then_switch @
           [HistorySettled 1 (Response series_24h), HistorySettled 0 (Response series_7d)])) = R24H \<and>
   historicalData
     (run filterParams initial
        (open_then_switch @
           [HistorySettled 1 (Response series_24h), HistorySettled 0 (Response series_7d)])) = series_7d \<and>
   series_7d \<noteq> series_24h"
  by (simp add: open_then_switch_def run_defs asset_a_ranked id_withScore_asset_a
      series_7d_def series_24h_def)

text \<open>
  Claim C2, amended: when a suspended history fetch resumes with a response, the response
  becomes the series whatever asset and range are selected at that moment, and the
  selection is left as it is; when it resumes with a failure the series is left as it is.
  So after overlapping fetches the series is that of the response that arrived last.
\<close>

theorem C2_every_response_is_committed:
  assumes "i < length (historyInFlight st)"
  shows "historicalData (step fp st (HistorySettled i (Response d))) = d \<and>
         selectedCrypto (step fp st (HistorySettled i (Response d))) = selectedCrypto st \<and>
         selectedTimeRange (step fp st (HistorySettled i (Response d))) = selectedTimeRange st \<and>
         historicalData (step fp st (HistorySettled i NetworkError)) = historicalData st"
  using assms by (simp add: fetchHistoricalData_resume_def)

theorem C2_every_response_is_committed_witness:
  "0 < length (historyInFlight (run filterParams initial open_then_switch)) \<and>
   historicalData (step filterParams (run filterParams initial open_then_switch)
     (HistorySettled 0 (Response series_7d))) = series_7d \<and>
   selectedTimeRange (step filterParams (run filterParams initial open_then_switch)
     (HistorySettled 0 (Response series_7d))) = R24H"
proof -
  have h: "0 < length (historyInFlight (run filterParams initial open_then_switch))"
    by (simp add: open_then_switch_def run_defs asset_a_ranked)
  have "selectedTimeRange (run filterParams initial open_then_switch) = R24H"
    by (simp add: open_then_switch_def run_defs asset_a_ranked)
  with h C2_every_response_is_committed [OF h, of filterParams series_7d]
  show ?thesis by simp
qed

text \<open>
  Claim C3 says that when the filter keeps no record, the state after a successful fetch
  shows the "no matches" condition, with an empty ranked list.  \<open>filterData\<close> does set
  the "no matching data" message, but \<open>fetchData\<close> clears \<open>error\<close> right after it has
  stored the list, so the message is gone when the fetch cycle ends.  Below, the only
  record of the response has a volume of 500.
\<close>

theorem C3_no_match_message_is_cleared:
  "rankedList filterParams [Some low_volume] = [] \<and>
   error (snd (filterData filterParams (Assets [Some low_volume])
     (step filterParams initial Mount))) = Some NoMatchingData \<and>
   error (run filterParams initial
     [Mount, SnapshotSettled (Response (Assets [Some low_volume]))]) = None \<and>
   data (run filterParams initial
     [Mount, SnapshotSettled (Response (Assets [Some low_volume]))]) = []"
  by (simp add: run_defs low_volume_dropped)

text \<open>
  Claim C4 says that the snapshot of scenario 1 scores about 55, with a capitalisation
  score of about 9.9.  The formula of the source gives a capitalisation score below 4 and
  a total that is not 55.
\<close>

theorem C4_scenario_is_not_55:
  "calculatePotentialScore scenario1 \<noteq> Fin 55 \<and> js_lt (marketCapScore scenario1) (Fin 4)"
  using ln_ratio_lower by (simp add: scenario1_total scenario1_marketCapScore)

text \<open>
  Claim C4, amended: for the snapshot of scenario 1 \<open>calculatePotentialScore\<close> returns
  48, composed of a capitalisation score between 3.2 and 3.3, a volume score of 25, a
  supply score of 10 and a trend score of 10.
\<close>

theorem C4_scenario_score:
  "calculatePotentialScore scenario1 = Fin 48 \<and>
   js_lt (Fin (16 / 5)) (marketCapScore scenario1) \<and>
   js_lt (marketCapScore scenario1) (Fin (33 / 10)) \<and>
   volumeScore scenario1 = Fin 25 \<and>
   supplyScore scenario1 = Fin 10 \<and>
   trendScore scenario1 = Fin 10"
  by (simp add: scenario1_total scenario1_marketCapScore_bounds scenario1_subscores)

text \<open>
  Claim C5 says that a snapshot with a field that does not parse gets the score 0 as a
  whole.  The source guards each sub-score on its own: with the supply \<open>abc\<close> the
  supply sub-score is 0 and the score is 65.
\<close>

theorem C5_unparsable_supply_scores_65:
  "isNaN (parseFloat (supply_amount unparsable_supply)) \<and>
   supplyScore unparsable_supply = Fin 0 \<and>
   calculatePotentialScore unparsable_supply = Fin 65"
  by (simp add: unparsable_supply_total)
    (simp add: unparsable_supply_def score_defs)

text \<open>
  Claim C5, amended: when the supply or the maximum supply does not parse, the supply
  sub-score is 0 and the score is the rounded sum of the other three sub-scores; when the
  percent change does not parse the same holds of the trend sub-score, and when the
  volume does not parse, of the volume sub-score.  The function is total: it returns a
  number for every snapshot and no exception leaves it.
\<close>

theorem C5_unparsable_field_zeroes_its_subscore:
  "(isNaN (parseFloat (supply_amount coin)) \<or> isNaN (parseFloat_nullable (maxSupply coin)) \<longrightarrow>
      supplyScore coin = Fin 0 \<and>
      calculatePotentialScore coin =
        Math_round (js_add (js_add (marketCapScore coin) (volumeScore coin)) (trendScore coin))) \<and>
   (isNaN (parseFloat (changePercent24Hr coin)) \<longrightarrow>
      trendScore coin = Fin 0 \<and>
      calculatePotentialScore coin =
        Math_round (js_add (js_add (marketCapScore coin) (volumeScore coin)) (supplyScore coin))) \<and>
   (isNaN (parseFloat (volumeUsd24Hr coin)) \<longrightarrow>
      volumeScore coin = Fin 0 \<and>
      calculatePotentialScore coin =
        Math_round (js_add (js_add (marketCapScore coin) (supplyScore coin)) (trendScore coin)))"
proof -
  have s: "supplyScore coin = Fin 0"
    if "isNaN (parseFloat (supply_amount coin)) \<or> isNaN (parseFloat_nullable (maxSupply coin))"
    using that by (auto simp: supplyScore_def Let_def)
  have t: "trendScore coin = Fin 0" if "isNaN (parseFloat (changePercent24Hr coin))"
    using that by (simp add: trendScore_def Let_def)
  have v: "volumeScore coin = Fin 0" if "isNaN (parseFloat (volumeUsd24Hr coin))"
  proof -
    from that have "parseFloat (volumeUsd24Hr coin) = NaN"
      by (cases "parseFloat (volumeUsd24Hr coin)") simp_all
    then show ?thesis by (simp add: volumeScore_def Let_def js_gt_def)
  qed
  show ?thesis
    by (auto simp: calculatePotentialScore_def s t v js_add_zero)
qed

theorem C5_unparsable_field_zeroes_its_subscore_witness:
  "isNaN (parseFloat (supply_amount unparsable_supply)) \<and>
   calculatePotentialScore unparsable_supply =
     Math_round (js_add (js_add (marketCapScore unparsable_supply) (volumeScore unparsable_supply))
       (trendScore unparsable_supply)) \<and>
   isNaN (parseFloat (changePercent24Hr unparsable_change)) \<and>
   trendScore unparsable_change = Fin 0 \<and>
   isNaN (parseFloat (volumeUsd24Hr unparsable_volume)) \<and>
   volumeScore unparsable_volume = Fin 0"
proof -
  have a: "isNaN (parseFloat (supply_amount unparsable_supply))"
    by (simp add: unparsable_supply_def asset_def parseFloat_examples)
  have b: "isNaN (parseFloat (changePercent24Hr unparsable_change))"
    by (simp add: unparsable_change_def asset_def parseFloat_examples)
  have c: "isNaN (parseFloat (volumeUsd24Hr unparsable_volume))"
    by (simp add: unparsable_volume_def asset_def parseFloat_examples)
  show ?thesis
    using a b c
      C5_unparsable_field_zeroes_its_subscore [of unparsable_supply]
      C5_unparsable_field_zeroes_its_subscore [of unparsable_change]
      C5_unparsable_field_zeroes_its_subscore [of unparsable_volume]
    by blast
qed

text \<open>
  Claim C6 says that a snapshot is kept exactly when its volume, market capitalisation
  and percent change parse to finite numbers and the thresholds hold.  The source tests
  \<open>isNaN\<close>, which \<open>Infinity\<close> passes: a snapshot whose volume is the text
  \<open>Infinity\<close> is kept.
\<close>

theorem C6_infinite_volume_is_kept:
  "parseFloat (volumeUsd24Hr infinite_volume) = PInf \<and>
   infinite_volume \<in> set (survivors filterParams [Some infinite_volume])"
  by (simp add: survivors_single [OF infinite_volume_valid])
    (simp add: infinite_volume_def asset_def parseFloat_examples)

text \<open>
  Claim C6, amended: a snapshot of the input is in the filtered set exactly when its
  volume, market capitalisation and percent change parse to values other than \<open>NaN\<close>
  (an infinity is accepted), \<open>volume >= minVolume\<close> and
  \<open>minMarketCap <= marketCap <= maxMarketCap\<close>; and no record of the ranked list has a
  volume below \<open>minVolume\<close>.
\<close>

theorem C6_filter_keeps_exactly_the_valid:
  "(coin \<in> set (survivors fp items) \<longleftrightarrow>
      Some coin \<in> set items \<and>
      \<not> isNaN (parseFloat (volumeUsd24Hr coin)) \<and>
      \<not> isNaN (parseFloat (marketCapUsd coin)) \<and>
      \<not> isNaN (parseFloat (changePercent24Hr coin)) \<and>
      js_ge (parseFloat (volumeUsd24Hr coin)) (minVolume fp) \<and>
      js_ge (parseFloat (marketCapUsd coin)) (minMarketCap fp) \<and>
      js_le (parseFloat (marketCapUsd coin)) (maxMarketCap fp)) \<and>
   (\<forall>r \<in> set (rankedList fp items).
      \<not> js_lt (parseFloat (volumeUsd24Hr r)) (minVolume fp))"
proof -
  have "\<not> js_lt (parseFloat (volumeUsd24Hr r)) (minVolume fp)"
    if "r \<in> set (rankedList fp items)" for r
  proof -
    from that set_rankedList [of fp items] obtain c
      where c: "c \<in> set (survivors fp items)" and r: "r = withScore c" by auto
    from c have "js_ge (parseFloat (volumeUsd24Hr c)) (minVolume fp)"
      by (simp add: survivors_iff isValid_iff)
    then show ?thesis by (simp add: r volume_withScore js_ge_def js_le_imp_not_lt)
  qed
  then show ?thesis by (auto simp: survivors_iff isValid_iff)
qed

theorem C6_filter_keeps_exactly_the_valid_witness:
  "Some asset_a \<in> set [Some asset_a, Some low_volume] \<and>
   asset_a \<in> set (survivors filterParams [Some asset_a, Some low_volume]) \<and>
   low_volume \<notin> set (survivors filterParams [Some asset_a, Some low_volume]) \<and>
   withScore asset_a \<in> set (rankedList filterParams [Some asset_a]) \<and>
   \<not> js_lt (parseFloat (volumeUsd24Hr (withScore asset_a))) (minVolume filterParams)"
proof -
  have a: "\<not> js_ge (parseFloat (volumeUsd24Hr low_volume)) (minVolume filterParams)"
    by (simp add: filterParams_def low_volume_def asset_def parseFloat_examples js_ge_def)
  have b: "withScore asset_a \<in> set (rankedList filterParams [Some asset_a])"
    by (simp add: asset_a_ranked)
  have c: "asset_a \<in> set (survivors filterParams [Some asset_a, Some low_volume])"
    using asset_a_valid by (simp add: survivors_iff)
  show ?thesis
    using a b c
      C6_filter_keeps_exactly_the_valid [of low_volume filterParams "[Some asset_a, Some low_volume]"]
      C6_filter_keeps_exactly_the_valid [of asset_a filterParams "[Some asset_a]"]
    by simp
qed

text \<open>
  Claim C7: for every input and every parameters the ranked list has at most
  \<open>maxResults\<close> records and is in descending order of \<open>potentialScore\<close>, ties in the
  order of the input.  Every record of the list carries its own score.  The order is
  that of the comparator, which reads a score with \<open>|| 0\<close> (a \<open>NaN\<close> score counts as
  0): the list is sorted by that key, and as JavaScript numbers no record is followed by
  one with a greater score.  For each value of the key, the records with that key are a
  prefix of the scored survivors with that key, and the survivors are the kept elements of
  the input in their order.
\<close>

theorem C7_ranked_list_bounded_sorted_stable:
  "length (rankedList fp items) \<le> maxResults fp \<and>
   map Some (survivors fp items) = filter (filter_callback fp) items \<and>
   (\<forall>r \<in> set (rankedList fp items). potentialScore r = Some (calculatePotentialScore r)) \<and>
   sorted_wrt (\<lambda>a b. js_ge (or_zero (potentialScore a)) (or_zero (potentialScore b)))
     (rankedList fp items) \<and>
   sorted_wrt (\<lambda>a b. \<not> js_lt (calculatePotentialScore a) (calculatePotentialScore b))
     (rankedList fp items) \<and>
   (\<forall>v. prefix (filter (\<lambda>c. or_zero (potentialScore c) = v) (rankedList fp items))
          (filter (\<lambda>c. or_zero (potentialScore c) = v) (map withScore (survivors fp items))))"
proof -
  let ?scored = "map withScore (survivors fp items)"
  let ?key = "\<lambda>c. or_zero (potentialScore c)"
  have len: "length (rankedList fp items) \<le> maxResults fp"
    by (simp add: rankedList_def Array_slice0_def)
  have own: "\<forall>r \<in> set (rankedList fp items). potentialScore r = Some (calculatePotentialScore r)"
    using set_rankedList [of fp items] potentialScore_withScore by auto
  have srt: "sorted_wrt (\<lambda>a b. js_ge (?key a) (?key b)) (rankedList fp items)"
    unfolding rankedList_def Array_slice0_def
    by (rule sorted_wrt_take) (rule sorted_Array_sort)
  have "sorted_wrt (\<lambda>a b. \<not> js_lt (calculatePotentialScore a) (calculatePotentialScore b))
     (rankedList fp items)"
  proof (rule sorted_wrt_mono_rel [OF _ srt])
    fix a b
    assume "a \<in> set (rankedList fp items)" "b \<in> set (rankedList fp items)"
      and "js_ge (?key a) (?key b)"
    with own show "\<not> js_lt (calculatePotentialScore a) (calculatePotentialScore b)"
      by (simp add: no_inversion)
  qed
  moreover have "prefix (filter (\<lambda>c. ?key c = v) (rankedList fp items))
          (filter (\<lambda>c. ?key c = v) ?scored)" for v
  proof -
    have "prefix (filter (\<lambda>c. ?key c = v) (rankedList fp items))
            (filter (\<lambda>c. ?key c = v) (Array_sort compareScore ?scored))"
      unfolding rankedList_def Array_slice0_def
      by (rule filter_mono_prefix) (rule take_is_prefix)
    then show ?thesis by (simp add: filter_Array_sort)
  qed
  ultimately show ?thesis
    using len own srt survivors_in_input_order [of fp items] by blast
qed

theorem C7_ranked_list_bounded_sorted_stable_witness:
  "rankedList filterParams [Some oversupplied, Some asset_a] =
     [withScore asset_a, withScore oversupplied] \<and>
   potentialScore (withScore asset_a) = Some (calculatePotentialScore (withScore asset_a)) \<and>
   potentialScore (withScore oversupplied) = Some (calculatePotentialScore (withScore oversupplied)) \<and>
   sorted_wrt (\<lambda>a b. \<not> js_lt (calculatePotentialScore a) (calculatePotentialScore b))
     [withScore asset_a, withScore oversupplied]"
proof -
  have s: "survivors filterParams [Some oversupplied, Some asset_a] = [oversupplied, asset_a]"
    using oversupplied_valid asset_a_valid by (simp add: survivors_def filter_callback_def)
  have k: "or_zero (potentialScore (withScore asset_a)) = Fin 55"
    "or_zero (potentialScore (withScore oversupplied)) = Fin (- 40)"
    by (simp_all add: withScore_def asset_a_total oversupplied_total or_zero_def)
  have m: "maxResults filterParams = 100"
    by (simp add: filterParams_def)
  have r: "rankedList filterParams [Some oversupplied, Some asset_a] =
     [withScore asset_a, withScore oversupplied]"
    by (simp add: rankedList_def s Array_sort_Cons Array_sort_Nil compareScore_positive_iff k
        Array_slice0_def m)
  show ?thesis
    using r C7_ranked_list_bounded_sorted_stable [of filterParams "[Some oversupplied, Some asset_a]"]
    by simp
qed

text \<open>
  Claim C8 says that the transform maps every sequence of history points, the empty one
  included, to one pair per point, and that the empty input gives an empty series that
  differs from the state before any fetch.  The source returns \<open>null\<close> for the empty
  sequence, which is also what it returns for the initial state.
\<close>

theorem C8_empty_series_is_null:
  "chartData [] R7D = None \<and>
   chartData (historicalData initial) (selectedTimeRange initial) = chartData [] R7D"
  by (simp add: chartData_def initial_def)

text \<open>
  Claim C8, amended: for every non-empty sequence of history points and every range the
  transform gives one label and one value per point; the label at index \<open>i\<close> is the
  formatted time of point \<open>i\<close> and the value is \<open>parseFloat\<close> of its price; the hour
  is part of the label format only for the range 24H.  For the empty sequence the
  transform gives \<open>null\<close>.
\<close>

theorem C8_one_pair_per_point:
  "(hs \<noteq> [] \<longrightarrow>
      (\<exists>c. chartData hs rng = Some c \<and>
           length (labels c) = length hs \<and> length (dataset c) = length hs \<and>
           (\<forall>i < length hs.
              labels c ! i =
                LocaleDateString (hist_time (hs ! i)) ''zh-CN''
                  \<lparr>month = Some ''short'', day = Some ''numeric'',
                   hour = (if rng = R24H then Some ''numeric'' else None)\<rparr> \<and>
              dataset c ! i = parseFloat (hist_priceUsd (hs ! i))))) \<and>
   chartData [] rng = None"
  by (simp add: chartData_def)

theorem C8_one_pair_per_point_witness:
  "series_7d \<noteq> [] \<and> (0::nat) < length series_7d \<and>
   (\<exists>c. chartData series_7d R24H = Some c \<and>
        length (labels c) = 2 \<and>
        labels c ! 0 =
          LocaleDateString 1000 ''zh-CN''
            \<lparr>month = Some ''short'', day = Some ''numeric'', hour = Some ''numeric''\<rparr> \<and>
        dataset c ! 0 = Fin (3 / 2))"
proof -
  have h: "series_7d \<noteq> []" by (simp add: series_7d_def)
  have p: "parseFloat ''1.5'' = Fin (3 / 2)" by (simp add: parse_defs)
  from h C8_one_pair_per_point [of series_7d R24H] obtain c
    where c: "chartData series_7d R24H = Some c" "length (labels c) = length series_7d"
      "\<forall>i < length series_7d.
          labels c ! i =
            LocaleDateString (hist_time (series_7d ! i)) ''zh-CN''
              \<lparr>month = Some ''short'', day = Some ''numeric'',
               hour = (if R24H = R24H then Some ''numeric'' else None)\<rparr> \<and>
          dataset c ! i = parseFloat (hist_priceUsd (series_7d ! i))"
    by blast
  from c(3) have "labels c ! 0 =
      LocaleDateString 1000 ''zh-CN''
        \<lparr>month = Some ''short'', day = Some ''numeric'', hour = Some ''numeric''\<rparr> \<and>
      dataset c ! 0 = Fin (3 / 2)"
    by (simp add: series_7d_def p)
  with c(1,2) h show ?thesis by (simp add: series_7d_def)
qed

text \<open>
  Claim C9 says that a trigger that arrives while a snapshot fetch is in flight never
  starts a second one.  The timer calls \<open>fetchData\<close> without looking at the state: after
  a manual refresh, a tick of the timer puts a second fetch in flight.
\<close>

theorem C9_timer_starts_second_fetch:
  "snapshotsInFlight
     (run filterParams initial
        [Mount, SnapshotSettled (Response (Assets [Some asset_a])), RefreshClick]) = 1 \<and>
   snapshotsInFlight
     (run filterParams initial
        [Mount, SnapshotSettled (Response (Assets [Some asset_a])), RefreshClick, TimerTick]) = 2"
  by (simp add: run_defs asset_a_ranked)

text \<open>
  Claim C9, amended: a manual refresh that arrives while \<open>loading\<close> is set starts no
  fetch; a tick of the timer starts a fetch whether or not one is in flight; and every
  fetch that completes with a response replaces the ranked list by the filtered result
  of that response, so the response that completes last is the one retained.
\<close>

theorem C9_refresh_suppressed_timer_not:
  "(loading st \<longrightarrow> step fp st RefreshClick = st) \<and>
   (timer st \<longrightarrow> snapshotsInFlight (step fp st TimerTick) = Suc (snapshotsInFlight st)) \<and>
   (0 < snapshotsInFlight st \<longrightarrow>
      data (step fp st (SnapshotSettled (Response p))) = fst (filterData fp p st))"
  by (simp add: fetchData_start_def fetchData_resume_def split: prod.splits)

theorem C9_refresh_suppressed_timer_not_witness:
  "loading (fetchData_start ready) \<and> timer (fetchData_start ready) \<and>
   0 < snapshotsInFlight (fetchData_start ready) \<and>
   step filterParams (fetchData_start ready) RefreshClick = fetchData_start ready \<and>
   snapshotsInFlight (step filterParams (fetchData_start ready) TimerTick) = 2 \<and>
   data (step filterParams (fetchData_start ready)
     (SnapshotSettled (Response (Assets [Some low_volume])))) = []"
proof -
  have h: "loading (fetchData_start ready)" "timer (fetchData_start ready)"
    "0 < snapshotsInFlight (fetchData_start ready)"
    "snapshotsInFlight (fetchData_start ready) = 1"
    by (simp_all add: fetchData_start_def ready_def initial_def)
  have f: "fst (filterData filterParams (Assets [Some low_volume]) (fetchData_start ready)) = []"
    by (simp add: filterData_def filterData_try_def low_volume_dropped)
  show ?thesis
    using h f
      C9_refresh_suppressed_timer_not [of "fetchData_start ready" filterParams
        "Assets [Some low_volume]"]
    by simp
qed



end
